theory Spec2Isabelle
  imports Complex_Main "HOL-Library.Word" "HOL-Library.Sublist"
begin

section \<open>JavaScript strings\<close>

text \<open>
  A JavaScript string is a sequence of UTF-16 code units; \<open>length\<close>, \<open>trim\<close> and
  \<open>includes\<close> all work on code units. Every literal of the two source files lies in
  Latin-1, so a literal is written as an Isabelle string (one \<open>char\<close> per code unit,
  \<open>CHR 0xE3\<close> for a-tilde and so on) and turned into code units by \<open>lit\<close>.
\<close>

type_synonym code_unit = "16 word"
type_synonym jsstring = "code_unit list"

definition lit :: "string \<Rightarrow> jsstring" where
  "lit s = map of_char s"

text \<open>
  The code units that \<open>String.prototype.trim\<close> strips: WhiteSpace (TAB, VT, FF, ZWNBSP
  and the space separators) and LineTerminator (LF, CR, LS, PS) of ECMA-262.
\<close>

definition white_space :: "code_unit list" where
  "white_space =
     [0x0009, 0x000A, 0x000B, 0x000C, 0x000D, 0x0020, 0x00A0, 0x1680,
      0x2000, 0x2001, 0x2002, 0x2003, 0x2004, 0x2005, 0x2006, 0x2007,
      0x2008, 0x2009, 0x200A, 0x2028, 0x2029, 0x202F, 0x205F, 0x3000, 0xFEFF]"

definition is_white_space :: "code_unit \<Rightarrow> bool" where
  "is_white_space c = (c \<in> set white_space)"

definition trimStart :: "jsstring \<Rightarrow> jsstring" where
  "trimStart s = dropWhile is_white_space s"

definition trimEnd :: "jsstring \<Rightarrow> jsstring" where
  "trimEnd s = rev (dropWhile is_white_space (rev s))"

definition trim :: "jsstring \<Rightarrow> jsstring" where
  "trim s = trimEnd (trimStart s)"

text \<open>\<open>s.includes(p)\<close>: \<open>p\<close> occurs in \<open>s\<close> as a contiguous run of code units.\<close>

fun includes_str :: "jsstring \<Rightarrow> jsstring \<Rightarrow> bool" where
  "includes_str [] p = (p = [])"
| "includes_str (c # cs) p = (prefix p (c # cs) \<or> includes_str cs p)"

text \<open>
  \<open>!v\<close> for a value that is a string when it is there: \<open>undefined\<close>, \<open>null\<close>
  (both \<open>None\<close>) and the empty string are falsy, every other string is truthy.
\<close>

definition falsy :: "jsstring option \<Rightarrow> bool" where
  "falsy v = (case v of None \<Rightarrow> True | Some s \<Rightarrow> s = [])"

text \<open>
  \<open>Number.prototype.toString\<close> on an integer of the range of \<open>Date.now()\<close>
  (below \<open>10^21\<close> in size, so never in exponent notation): the decimal digits, most
  significant first, after a minus sign for a negative number.
\<close>

definition digit :: "nat \<Rightarrow> code_unit" where
  "digit d = of_nat (48 + d)"

fun digits :: "nat \<Rightarrow> jsstring" where
  "digits n = (if n < 10 then [digit n] else digits (n div 10) @ [digit (n mod 10)])"

declare digits.simps [simp del]

definition toString :: "int \<Rightarrow> jsstring" where
  "toString n = (if n < 0 then 0x2D # digits (nat (- n)) else digits (nat n))"


section \<open>The translation proxy: \<open>src/app/api/translate/route.ts\<close>\<close>

text \<open>
  What the handler reads of a thrown value: \<open>error?.status\<close> (a number, or
  \<open>None\<close> when there is none) and \<open>error?.message\<close> (a string, or \<open>None\<close>).
\<close>

record js_error =
  err_status :: "int option"
  err_message :: "jsstring option"

text \<open>The JSON bodies the handler sends: \<open>{ error }\<close> and \<open>{ translation }\<close>.\<close>

datatype response_body = ErrorBody jsstring | TranslationBody jsstring

record http_response =
  status :: nat
  body :: response_body

text \<open>
  The three properties destructured from the parsed body. Each is a string when it is
  there, as the client sends it; \<open>None\<close> is a property that is absent or \<open>null\<close>.
\<close>

record translate_params =
  req_text :: "jsstring option"
  req_sourceLang :: "jsstring option"
  req_targetLang :: "jsstring option"

text \<open>
  The outcome of \<open>await request.json()\<close>: the promise rejects when the body is not
  JSON; the value \<open>null\<close> cannot be destructured; any other JSON value is read
  through its three properties (a number, a boolean, a string or an array has none of them).
\<close>

datatype request_json =
    JsonRejects js_error
  | JsonNull
  | JsonValue translate_params

text \<open>
  The \<open>TypeError\<close> of destructuring \<open>null\<close>. It has no \<open>status\<close>; the wording of
  its message is the engine's (here V8's).
\<close>

definition destructure_null :: js_error where
  "destructure_null =
     \<lparr>err_status = None,
      err_message = Some (lit ''Cannot destructure property 'text' of '(intermediate value)' as it is null.'')\<rparr>"

text \<open>The request of \<open>openai.chat.completions.create\<close> and what it resolves to.\<close>

record chat_message =
  role :: jsstring
  content :: jsstring

record chat_request =
  model :: jsstring
  messages :: "chat_message list"
  temperature :: rat
  max_tokens :: nat

text \<open>
  The call resolves to the body of the provider's answer as parsed from JSON; the client
  library hands it on without checking its shape.
\<close>

datatype json =
    JNull
  | JBool bool
  | JNum rat
  | JStr jsstring
  | JArr "json list"
  | JObj "(jsstring \<times> json) list"

text \<open>
  The provider is a parameter: given the credential of the client object and the request,
  the call either throws (\<open>Inl\<close>) or resolves to a completion (\<open>Inr\<close>).
\<close>

type_synonym provider = "jsstring \<Rightarrow> chat_request \<Rightarrow> js_error + json"

record provider_call =
  call_apiKey :: jsstring
  call_request :: chat_request

text \<open>
  The environment of one request: \<open>process.env.OPENAI_API_KEY\<close>, and the text that a
  template literal gives for a property that \<open>languageNames\<close> inherits from
  \<open>Object.prototype\<close> (\<open>constructor\<close>, \<open>toString\<close>, ...; \<open>None\<close> for every other key).
\<close>

record proxy_env =
  OPENAI_API_KEY :: "jsstring option"
  inherited :: "jsstring \<Rightarrow> jsstring option"

definition languageNames :: "(jsstring \<times> jsstring) list" where
  "languageNames =
     [(lit ''pt'', lit (''Portugu'' @ [CHR 0xEA] @ ''s'')),
      (lit ''en'', lit (''Ingl'' @ [CHR 0xEA] @ ''s'')),
      (lit ''es'', lit ''Espanhol''),
      (lit ''fr'', lit (''Franc'' @ [CHR 0xEA] @ ''s'')),
      (lit ''de'', lit (''Alem'' @ [CHR 0xE3] @ ''o'')),
      (lit ''it'', lit ''Italiano''),
      (lit ''ja'', lit (''Japon'' @ [CHR 0xEA] @ ''s'')),
      (lit ''ko'', lit ''Coreano''),
      (lit ''zh'', lit (''Chin'' @ [CHR 0xEA] @ ''s'')),
      (lit ''ar'', lit ([CHR 0xC1] @ ''rabe'')),
      (lit ''ru'', lit ''Russo''),
      (lit ''hi'', lit ''Hindi'')]"

text \<open>
  \<open>${languageNames[code]}\<close>: the own property when the table has the code, else what
  the object inherits, else the text \<open>undefined\<close>.
\<close>

definition languageName :: "proxy_env \<Rightarrow> jsstring \<Rightarrow> jsstring" where
  "languageName env code =
     (case map_of languageNames code of
        Some name \<Rightarrow> name
      | None \<Rightarrow> (case inherited env code of Some s \<Rightarrow> s | None \<Rightarrow> lit ''undefined''))"

definition prompt :: "proxy_env \<Rightarrow> jsstring \<Rightarrow> jsstring \<Rightarrow> jsstring \<Rightarrow> jsstring" where
  "prompt env txt src tgt =
     lit ''Traduza o seguinte texto de '' @ languageName env src @ lit '' para '' @
     languageName env tgt @
     lit (''. '' @ [CHR 0x0A] @ ''Retorne APENAS a tradu'' @ [CHR 0xE7, CHR 0xE3] @
          ''o, sem explica'' @ [CHR 0xE7, CHR 0xF5] @ ''es ou texto adicional.'' @
          [CHR 0x0A, CHR 0x0A] @ ''Texto: '') @
     txt"

definition system_content :: jsstring where
  "system_content =
     lit (''Voc'' @ [CHR 0xEA] @ '' '' @ [CHR 0xE9] @
          '' um tradutor profissional especializado em tradu'' @ [CHR 0xE7, CHR 0xE3] @
          ''o precisa e natural entre idiomas. Retorne apenas a tradu'' @
          [CHR 0xE7, CHR 0xE3] @ ''o solicitada, sem explica'' @ [CHR 0xE7, CHR 0xF5] @
          ''es.'')"

definition build_request :: "proxy_env \<Rightarrow> jsstring \<Rightarrow> jsstring \<Rightarrow> jsstring \<Rightarrow> chat_request" where
  "build_request env txt src tgt =
     \<lparr>model = lit ''gpt-4o'',
      messages =
        [\<lparr>role = lit ''system'', content = system_content\<rparr>,
         \<lparr>role = lit ''user'', content = prompt env txt src tgt\<rparr>],
      temperature = 3 / 10,
      max_tokens = 1000\<rparr>"

text \<open>
  Reading a property of a value that is neither \<open>undefined\<close> nor \<open>null\<close>; \<open>None\<close> is
  \<open>undefined\<close>. \<open>property name v\<close> is \<open>v.name\<close> for the names \<open>choices\<close>, \<open>message\<close>
  and \<open>content\<close>: an object has the property when it is one of its own, and no other
  JSON value has a property of these names. \<open>first_element v\<close> is \<open>v[0]\<close>: the first
  element of an array, the first code unit of a string, the property \<open>0\<close> of an object.
\<close>

fun property :: "jsstring \<Rightarrow> json \<Rightarrow> json option" where
  "property name (JObj ps) = map_of ps name"
| "property name v = None"

fun first_element :: "json \<Rightarrow> json option" where
  "first_element (JArr xs) = (case xs of [] \<Rightarrow> None | x # _ \<Rightarrow> Some x)"
| "first_element (JStr s) = (case s of [] \<Rightarrow> None | c # _ \<Rightarrow> Some (JStr [c]))"
| "first_element (JObj ps) = map_of ps (lit ''0'')"
| "first_element v = None"

text \<open>\<open>x?.name\<close>: \<open>undefined\<close> when \<open>x\<close> is \<open>undefined\<close> or \<open>null\<close>, else \<open>x.name\<close>.\<close>

definition optional_property :: "jsstring \<Rightarrow> json option \<Rightarrow> json option" where
  "optional_property name x =
     (case x of None \<Rightarrow> None | Some JNull \<Rightarrow> None | Some v \<Rightarrow> property name v)"

text \<open>A \<open>TypeError\<close>: no \<open>status\<close>, and a message in the engine's wording (V8's).\<close>

definition type_error :: "string \<Rightarrow> js_error" where
  "type_error m = \<lparr>err_status = None, err_message = Some (lit m)\<rparr>"

text \<open>
  \<open>completion.choices[0]?.message?.content?.trim() || ""\<close>, line 64. Only the steps
  after \<open>[0]\<close> are optional: \<open>completion.choices\<close> throws on a completion that is
  \<open>null\<close>, \<open>[0]\<close> throws when there is no \<open>choices\<close> (or it is \<open>null\<close>), and the call
  of \<open>trim\<close> throws on a content that is not a string.
\<close>

definition translation_of :: "json \<Rightarrow> js_error + jsstring" where
  "translation_of completion =
     (case completion of
        JNull \<Rightarrow> Inl (type_error ''Cannot read properties of null (reading 'choices')'')
      | _ \<Rightarrow>
          (case property (lit ''choices'') completion of
             None \<Rightarrow> Inl (type_error ''Cannot read properties of undefined (reading '0')'')
           | Some JNull \<Rightarrow> Inl (type_error ''Cannot read properties of null (reading '0')'')
           | Some choices \<Rightarrow>
               (case optional_property (lit ''content'')
                       (optional_property (lit ''message'') (first_element choices)) of
                  None \<Rightarrow> Inr []
                | Some JNull \<Rightarrow> Inr []
                | Some (JStr s) \<Rightarrow> Inr (trim s)
                | Some _ \<Rightarrow>
                    Inl (type_error
                      ''completion.choices[0]?.message?.content?.trim is not a function''))))"

definition msg_invalid_params :: jsstring where
  "msg_invalid_params = lit (''Par'' @ [CHR 0xE2] @ ''metros inv'' @ [CHR 0xE1] @ ''lidos'')"

definition msg_key_missing :: jsstring where
  "msg_key_missing =
     lit (''Chave da OpenAI n'' @ [CHR 0xE3] @
          ''o configurada. Configure OPENAI_API_KEY nas vari'' @ [CHR 0xE1] @
          ''veis de ambiente.'')"

definition msg_key_invalid :: jsstring where
  "msg_key_invalid =
     lit (''Chave da OpenAI inv'' @ [CHR 0xE1] @ ''lida. Verifique sua configura'' @
          [CHR 0xE7, CHR 0xE3] @ ''o.'')"

definition msg_rate_limit :: jsstring where
  "msg_rate_limit = lit ''Limite de uso da API atingido. Tente novamente mais tarde.''"

definition msg_generic :: jsstring where
  "msg_generic =
     lit (''Erro ao processar tradu'' @ [CHR 0xE7, CHR 0xE3] @ ''o. Tente novamente.'')"

text \<open>What a run of the handler leaves behind: the response, the calls made to the
  provider in order, and the errors written by \<open>console.error\<close>.\<close>

record post_result =
  response :: http_response
  provider_calls :: "provider_call list"
  logged :: "js_error list"

text \<open>The \<open>catch\<close> block, lines 67 to 90.\<close>

definition authentication_failure :: "js_error \<Rightarrow> bool" where
  "authentication_failure e =
     (err_status e = Some 401 \<or>
      (case err_message e of None \<Rightarrow> False | Some m \<Rightarrow> includes_str m (lit ''Incorrect API key'')))"

definition catch_response :: "js_error \<Rightarrow> http_response" where
  "catch_response e =
     (if authentication_failure e then \<lparr>status = 401, body = ErrorBody msg_key_invalid\<rparr>
      else if err_status e = Some 429 then \<lparr>status = 429, body = ErrorBody msg_rate_limit\<rparr>
      else \<lparr>status = 500, body = ErrorBody msg_generic\<rparr>)"

definition caught :: "provider_call list \<Rightarrow> js_error \<Rightarrow> post_result" where
  "caught calls e = \<lparr>response = catch_response e, provider_calls = calls, logged = [e]\<rparr>"

text \<open>The handler, lines 4 to 91.\<close>

definition POST :: "proxy_env \<Rightarrow> provider \<Rightarrow> request_json \<Rightarrow> post_result" where
  "POST env openai request =
     (case request of
        JsonRejects e \<Rightarrow> caught [] e
      | JsonNull \<Rightarrow> caught [] destructure_null
      | JsonValue p \<Rightarrow>
          if falsy (req_text p) \<or> falsy (req_sourceLang p) \<or> falsy (req_targetLang p) then
            \<lparr>response = \<lparr>status = 400, body = ErrorBody msg_invalid_params\<rparr>,
             provider_calls = [], logged = []\<rparr>
          else if falsy (OPENAI_API_KEY env) then
            \<lparr>response = \<lparr>status = 500, body = ErrorBody msg_key_missing\<rparr>,
             provider_calls = [], logged = []\<rparr>
          else
            (let apiKey = the (OPENAI_API_KEY env);
                 req = build_request env (the (req_text p)) (the (req_sourceLang p))
                         (the (req_targetLang p));
                 call = \<lparr>call_apiKey = apiKey, call_request = req\<rparr>
             in case openai apiKey req of
                  Inl e \<Rightarrow> caught [call] e
                | Inr completion \<Rightarrow>
                    (case translation_of completion of
                       Inl e \<Rightarrow> caught [call] e
                     | Inr translation \<Rightarrow>
                         \<lparr>response = \<lparr>status = 200, body = TranslationBody translation\<rparr>,
                          provider_calls = [call], logged = []\<rparr>)))"


section \<open>The translation client: \<open>src/app/page.tsx\<close>\<close>

text \<open>
  \<open>interface Translation\<close>. The fields \<open>id\<close>, \<open>from\<close>, \<open>to\<close>, \<open>original\<close>,
  \<open>translated\<close> and \<open>timestamp\<close> carry the prefix \<open>t_\<close> (three of the names are taken
  in Isabelle); a \<open>Date\<close> is its time value in milliseconds.
\<close>

record translation =
  t_id :: jsstring
  t_from :: jsstring
  t_to :: jsstring
  t_original :: jsstring
  t_translated :: jsstring
  t_timestamp :: int

definition languages :: "(jsstring \<times> jsstring) list" where
  "languages =
     [(lit ''pt'', lit (''Portugu'' @ [CHR 0xEA] @ ''s'')),
      (lit ''en'', lit (''Ingl'' @ [CHR 0xEA] @ ''s'')),
      (lit ''es'', lit ''Espanhol''),
      (lit ''fr'', lit (''Franc'' @ [CHR 0xEA] @ ''s'')),
      (lit ''de'', lit (''Alem'' @ [CHR 0xE3] @ ''o'')),
      (lit ''it'', lit ''Italiano''),
      (lit ''ja'', lit (''Japon'' @ [CHR 0xEA] @ ''s'')),
      (lit ''ko'', lit ''Coreano''),
      (lit ''zh'', lit (''Chin'' @ [CHR 0xEA] @ ''s'')),
      (lit ''ar'', lit ([CHR 0xC1] @ ''rabe'')),
      (lit ''ru'', lit ''Russo''),
      (lit ''hi'', lit ''Hindi'')]"

text \<open>The nine \<open>useState\<close> cells of \<open>TranslatorApp\<close>, lines 37 to 45.\<close>

record client_state =
  sourceText :: jsstring
  translatedText :: jsstring
  sourceLang :: jsstring
  targetLang :: jsstring
  isTranslating :: bool
  history :: "translation list"
  showHistory :: bool
  copied :: bool
  apiError :: "jsstring option"

definition initial_state :: client_state where
  "initial_state =
     \<lparr>sourceText = [], translatedText = [], sourceLang = lit ''pt'', targetLang = lit ''en'',
      isTranslating = False, history = [], showHistory = False, copied = False,
      apiError = None\<rparr>"

text \<open>
  What a handler does besides setting state: toasts, the request to \<open>/api/translate\<close>
  with its JSON body, \<open>console.error\<close>, the clipboard, a timer, speech synthesis.
\<close>

datatype effect =
    ToastError jsstring
  | ToastSuccess jsstring
  | Fetch translate_params
  | ConsoleError
  | ClipboardWrite jsstring
  | SetTimeout nat
  | Speak jsstring jsstring

text \<open>
  What the handler reads of the answer: \<open>response.ok\<close>, \<open>data.error\<close> and
  \<open>data.translation\<close>, the latter a string as the state it is stored into.
  \<open>Throws\<close> is any rejection inside the \<open>try\<close> block before the first state update:
  \<open>fetch\<close> fails, or the body of the answer is not JSON.
\<close>

record response_data =
  data_error :: "jsstring option"
  data_translation :: jsstring

datatype fetch_outcome = Throws | Responds bool response_data

definition msg_empty_input :: jsstring where
  "msg_empty_input = lit ''Digite um texto para traduzir''"

definition msg_translate_failed :: jsstring where
  "msg_translate_failed = lit ''Erro ao traduzir''"

definition msg_done :: jsstring where
  "msg_done = lit (''Tradu'' @ [CHR 0xE7, CHR 0xE3] @ ''o conclu'' @ [CHR 0xED] @ ''da!'')"

definition msg_connection :: jsstring where
  "msg_connection = lit ''Erro ao conectar com o servidor. Tente novamente.''"

text \<open>
  \<open>handleTranslate\<close> up to its \<open>await fetch\<close>, lines 47 to 65: the validation, the two
  state updates and the request. \<open>s\<close> is the state of the render that made the handler.
\<close>

definition handleTranslate_start :: "client_state \<Rightarrow> client_state \<times> effect list" where
  "handleTranslate_start s =
     (if trim (sourceText s) = [] then (s, [ToastError msg_empty_input])
      else (s\<lparr>isTranslating := True, apiError := None\<rparr>,
            [Fetch \<lparr>req_text = Some (sourceText s), req_sourceLang = Some (sourceLang s),
                    req_targetLang = Some (targetLang s)\<rparr>]))"

text \<open>
  \<open>handleTranslate\<close> after the \<open>await\<close>, lines 67 to 96. The handler still reads
  \<open>sourceText\<close>, \<open>sourceLang\<close>, \<open>targetLang\<close> and \<open>history\<close> from \<open>s\<close>, the state
  of its own render; its setters write into \<open>c\<close>, the state at the time of the answer.
  \<open>now\<close> is the value of \<open>Date.now()\<close> and \<open>date\<close> the one of \<open>new Date()\<close>.
\<close>

definition handleTranslate_resume ::
  "client_state \<Rightarrow> fetch_outcome \<Rightarrow> int \<Rightarrow> int \<Rightarrow> client_state \<Rightarrow> client_state \<times> effect list" where
  "handleTranslate_resume s outcome now date c =
     (case outcome of
        Throws \<Rightarrow>
          (c\<lparr>apiError := Some msg_connection, isTranslating := False\<rparr>,
           [ToastError msg_connection, ConsoleError])
      | Responds ok data \<Rightarrow>
          if \<not> ok then
            (let m = (if falsy (data_error data) then msg_translate_failed
                      else the (data_error data))
             in (c\<lparr>apiError := Some m, isTranslating := False\<rparr>, [ToastError m]))
          else
            (let newTranslation =
                   \<lparr>t_id = toString now, t_from = sourceLang s, t_to = targetLang s,
                    t_original = sourceText s, t_translated = data_translation data,
                    t_timestamp = date\<rparr>
             in (c\<lparr>translatedText := data_translation data,
                   history := newTranslation # take 9 (history s),
                   isTranslating := False\<rparr>,
                 [ToastSuccess msg_done])))"

text \<open>One whole invocation, with nothing else happening while the request is in flight.\<close>

definition handleTranslate ::
  "client_state \<Rightarrow> fetch_outcome \<Rightarrow> int \<Rightarrow> int \<Rightarrow> client_state \<times> effect list" where
  "handleTranslate s outcome now date =
     (if trim (sourceText s) = [] then handleTranslate_start s
      else (let (s1, e1) = handleTranslate_start s;
                (s2, e2) = handleTranslate_resume s outcome now date s1
            in (s2, e1 @ e2)))"

definition swapLanguages :: "client_state \<Rightarrow> client_state \<times> effect list" where
  "swapLanguages s =
     (s\<lparr>sourceLang := targetLang s, targetLang := sourceLang s,
        sourceText := translatedText s, translatedText := sourceText s\<rparr>, [])"

definition copyToClipboard :: "client_state \<Rightarrow> client_state \<times> effect list" where
  "copyToClipboard s =
     (s\<lparr>copied := True\<rparr>,
      [ClipboardWrite (translatedText s), ToastSuccess (lit ''Texto copiado!''), SetTimeout 2000])"

definition loadFromHistory :: "translation \<Rightarrow> client_state \<Rightarrow> client_state \<times> effect list" where
  "loadFromHistory item s =
     (s\<lparr>sourceLang := t_from item, targetLang := t_to item, sourceText := t_original item,
        translatedText := t_translated item, showHistory := False\<rparr>,
      [ToastSuccess (lit (''Tradu'' @ [CHR 0xE7, CHR 0xE3] @ ''o carregada do hist'' @
                          [CHR 0xF3] @ ''rico''))])"

text \<open>
  The session as the event loop runs it: the displayed state, and the renders captured
  by the \<open>handleTranslate\<close> calls whose request is still in flight. An action is one
  event: an input, a click, an answer to the \<open>i\<close>-th request in flight, the timer.
\<close>

record session =
  ui :: client_state
  pending :: "client_state list"

datatype action =
    SetSourceText jsstring
  | SetSourceLang jsstring
  | SetTargetLang jsstring
  | Translate
  | Settle nat fetch_outcome int int
  | SwapLanguages
  | CopyToClipboard
  | CopiedTimeout
  | ToggleHistory
  | LoadFromHistory nat

fun step :: "action \<Rightarrow> session \<Rightarrow> session" where
  "step (SetSourceText t) a = a\<lparr>ui := (ui a)\<lparr>sourceText := t\<rparr>\<rparr>"
| "step (SetSourceLang code) a =
     (if code \<in> set (map fst languages) then a\<lparr>ui := (ui a)\<lparr>sourceLang := code\<rparr>\<rparr> else a)"
| "step (SetTargetLang code) a =
     (if code \<in> set (map fst languages) then a\<lparr>ui := (ui a)\<lparr>targetLang := code\<rparr>\<rparr> else a)"
| "step Translate a =
     (if trim (sourceText (ui a)) = [] then a
      else a\<lparr>ui := fst (handleTranslate_start (ui a)), pending := pending a @ [ui a]\<rparr>)"
| "step (Settle i outcome now date) a =
     (if i < length (pending a) then
        a\<lparr>ui := fst (handleTranslate_resume (pending a ! i) outcome now date (ui a)),
          pending := take i (pending a) @ drop (Suc i) (pending a)\<rparr>
      else a)"
| "step SwapLanguages a = a\<lparr>ui := fst (swapLanguages (ui a))\<rparr>"
| "step CopyToClipboard a = a\<lparr>ui := fst (copyToClipboard (ui a))\<rparr>"
| "step CopiedTimeout a = a\<lparr>ui := (ui a)\<lparr>copied := False\<rparr>\<rparr>"
| "step ToggleHistory a = a\<lparr>ui := (ui a)\<lparr>showHistory := \<not> showHistory (ui a)\<rparr>\<rparr>"
| "step (LoadFromHistory i) a =
     (if showHistory (ui a) \<and> i < length (history (ui a)) then
        a\<lparr>ui := fst (loadFromHistory (history (ui a) ! i) (ui a))\<rparr>
      else a)"

definition initial_session :: session where
  "initial_session = \<lparr>ui = initial_state, pending = []\<rparr>"

text \<open>The session after the actions \<open>as\<close>, the first of the list first.\<close>

definition run :: "action list \<Rightarrow> session" where
  "run as = foldl (\<lambda>a x. step x a) initial_session as"

text \<open>
  The values of \<open>Date.now()\<close> read by the answers that create a record, in the order of
  the actions.
\<close>

fun reading :: "action \<Rightarrow> int list" where
  "reading (Settle i (Responds ok d) now date) = (if ok then [now] else [])"
| "reading _ = []"

definition readings :: "action list \<Rightarrow> int list" where
  "readings as = concat (map reading as)"


text \<open>
  What the identifiers of a history are measured against: \<open>ids_from S h\<close> says that no
  two records of \<open>h\<close> share their \<open>id\<close> and that every \<open>id\<close> is the decimal text of a
  clock value of \<open>S\<close>; \<open>ids_inv S a\<close> says so of the displayed history and of every
  history captured by a call in flight.
\<close>

definition ids_from :: "int set \<Rightarrow> translation list \<Rightarrow> bool" where
  "ids_from S h = (distinct (map t_id h) \<and> t_id ` set h \<subseteq> toString ` S)"

definition ids_inv :: "int set \<Rightarrow> session \<Rightarrow> bool" where
  "ids_inv S a = (ids_from S (history (ui a)) \<and> (\<forall>c\<in>set (pending a). ids_from S (history c)))"


section \<open>Concrete inputs\<close>

text \<open>A configured proxy, one without credential, and providers that answer or throw.\<close>

definition no_inherited :: "jsstring \<Rightarrow> jsstring option" where
  "no_inherited code = None"

definition configured :: proxy_env where
  "configured = \<lparr>OPENAI_API_KEY = Some (lit ''sk-test''), inherited = no_inherited\<rparr>"

definition unconfigured :: proxy_env where
  "unconfigured = \<lparr>OPENAI_API_KEY = None, inherited = no_inherited\<rparr>"

definition chat_completion :: "json \<Rightarrow> json" where
  "chat_completion c =
     JObj [(lit ''id'', JStr (lit ''chatcmpl-1'')),
           (lit ''choices'',
            JArr [JObj [(lit ''index'', JNum 0),
                        (lit ''message'',
                         JObj [(lit ''role'', JStr (lit ''assistant'')), (lit ''content'', c)])]])]"

definition answering :: "jsstring option \<Rightarrow> provider" where
  "answering c key req =
     Inr (chat_completion (case c of None \<Rightarrow> JNull | Some s \<Rightarrow> JStr s))"

definition resolving :: "json \<Rightarrow> provider" where
  "resolving v key req = Inr v"

text \<open>
  What a plain object inherits in Node, with the text a template literal gives for it: the
  methods of \<open>Object.prototype\<close> and its \<open>__proto__\<close> accessor.
\<close>

definition node_prototype :: "jsstring \<Rightarrow> jsstring option" where
  "node_prototype name =
     (if name = lit ''constructor'' then Some (lit ''function Object() { [native code] }'')
      else if name = lit ''__proto__'' then Some (lit ''[object Object]'')
      else if name \<in> set (map lit
          [''__defineGetter__'', ''__defineSetter__'', ''hasOwnProperty'', ''__lookupGetter__'',
           ''__lookupSetter__'', ''isPrototypeOf'', ''propertyIsEnumerable'', ''toString'',
           ''valueOf'', ''toLocaleString''])
        then Some (lit ''function '' @ name @ lit ''() { [native code] }'')
      else None)"

definition node :: proxy_env where
  "node = \<lparr>OPENAI_API_KEY = Some (lit ''sk-test''), inherited = node_prototype\<rparr>"

definition throwing :: "js_error \<Rightarrow> provider" where
  "throwing e key req = Inl e"

definition params :: "string \<Rightarrow> string \<Rightarrow> string \<Rightarrow> translate_params" where
  "params txt src tgt =
     \<lparr>req_text = Some (lit txt), req_sourceLang = Some (lit src), req_targetLang = Some (lit tgt)\<rparr>"

text \<open>A client state with a full history, and two translations answered in the same millisecond.\<close>

definition record_at :: "int \<Rightarrow> translation" where
  "record_at n =
     \<lparr>t_id = toString n, t_from = lit ''en'', t_to = lit ''pt'', t_original = lit ''Hello'',
      t_translated = lit ''Ola'', t_timestamp = n\<rparr>"

definition full_state :: client_state where
  "full_state =
     initial_state\<lparr>sourceText := lit ''Good morning'',
                   history := map record_at [10, 9, 8, 7, 6, 5, 4, 3, 2, 1]\<rparr>"

definition translated :: "string \<Rightarrow> fetch_outcome" where
  "translated t = Responds True \<lparr>data_error = None, data_translation = lit t\<rparr>"

definition refused :: "string \<Rightarrow> fetch_outcome" where
  "refused m = Responds False \<lparr>data_error = Some (lit m), data_translation = []\<rparr>"

definition same_millisecond :: "action list" where
  "same_millisecond =
     [SetSourceText (lit ''a''), Translate, Settle 0 (translated ''x'') 1700000000000 1700000000000,
      SetSourceText (lit ''b''), Translate, Settle 0 (translated ''y'') 1700000000000 1700000000000]"

definition next_millisecond :: "action list" where
  "next_millisecond =
     [SetSourceText (lit ''a''), Translate, Settle 0 (translated ''x'') 1700000000000 1700000000000,
      SetSourceText (lit ''b''), Translate, Settle 0 (translated ''y'') 1700000000001 1700000000001]"


section \<open>Facts about the string functions\<close>

lemma take_drop_white: "takeWhile is_white_space s @ dropWhile is_white_space s = s"
  by (rule takeWhile_dropWhile_id)

lemma takeWhile_white: "\<forall>c\<in>set (takeWhile is_white_space s). is_white_space c"
  using set_takeWhileD [of _ is_white_space s] by blast

lemma trimEnd_Nil_iff: "trimEnd s = [] \<longleftrightarrow> (\<forall>c\<in>set s. is_white_space c)"
  unfolding trimEnd_def by simp

lemma trimStart_Nil_iff: "trimStart s = [] \<longleftrightarrow> (\<forall>c\<in>set s. is_white_space c)"
  unfolding trimStart_def by simp

lemma trimStart_decomp:
  "\<exists>pre. s = pre @ trimStart s \<and> (\<forall>c\<in>set pre. is_white_space c)"
proof (intro exI conjI)
  show "s = takeWhile is_white_space s @ trimStart s"
    unfolding trimStart_def by (rule take_drop_white [symmetric])
  show "\<forall>c\<in>set (takeWhile is_white_space s). is_white_space c"
    by (rule takeWhile_white)
qed

lemma trimEnd_decomp:
  "\<exists>suf. s = trimEnd s @ suf \<and> (\<forall>c\<in>set suf. is_white_space c)"
proof (intro exI conjI)
  have "trimEnd s @ rev (takeWhile is_white_space (rev s)) =
        rev (takeWhile is_white_space (rev s) @ dropWhile is_white_space (rev s))"
    unfolding trimEnd_def by (simp only: rev_append)
  also have "\<dots> = rev (rev s)" by (simp only: take_drop_white)
  also have "\<dots> = s" by (rule rev_rev_ident)
  finally show "s = trimEnd s @ rev (takeWhile is_white_space (rev s))" by (rule sym)
  show "\<forall>c\<in>set (rev (takeWhile is_white_space (rev s))). is_white_space c"
    using takeWhile_white [of "rev s"] by (simp only: set_rev)
qed

lemma trim_decomp:
  "\<exists>pre suf. s = pre @ trim s @ suf \<and> (\<forall>c\<in>set pre. is_white_space c)
      \<and> (\<forall>c\<in>set suf. is_white_space c)"
proof -
  obtain pre where pre: "s = pre @ trimStart s" "\<forall>c\<in>set pre. is_white_space c"
    using trimStart_decomp by blast
  obtain suf where suf: "trimStart s = trimEnd (trimStart s) @ suf"
      "\<forall>c\<in>set suf. is_white_space c"
    using trimEnd_decomp by blast
  have "pre @ trim s @ suf = pre @ trimStart s"
    unfolding trim_def using suf(1) by (simp only:)
  also have "\<dots> = s" using pre(1) by (rule sym)
  finally have "s = pre @ trim s @ suf" by (rule sym)
  with pre(2) suf(2) show ?thesis by blast
qed

lemma trim_Nil_iff: "trim s = [] \<longleftrightarrow> (\<forall>c\<in>set s. is_white_space c)"
proof
  assume empty: "trim s = []"
  obtain pre suf where d: "s = pre @ trim s @ suf" "\<forall>c\<in>set pre. is_white_space c"
      "\<forall>c\<in>set suf. is_white_space c"
    using trim_decomp by blast
  from d(1) empty have "set s = set pre \<union> set suf" by simp
  with d(2,3) show "\<forall>c\<in>set s. is_white_space c" by blast
next
  assume all: "\<forall>c\<in>set s. is_white_space c"
  then have "trimStart s = []" by (simp only: trimStart_Nil_iff)
  then show "trim s = []" unfolding trim_def by (simp add: trimEnd_def)
qed

lemma trimEnd_last: 
  assumes "trimEnd s \<noteq> []"
  shows "\<not> is_white_space (last (trimEnd s))"
proof -
  let ?d = "dropWhile is_white_space (rev s)"
  from assms have ne: "?d \<noteq> []" unfolding trimEnd_def by simp
  then have "\<not> is_white_space (hd ?d)" by (rule hd_dropWhile)
  moreover from ne have "last (rev ?d) = hd ?d" by (simp add: last_rev)
  ultimately show ?thesis unfolding trimEnd_def by simp
qed

lemma trimEnd_hd:
  assumes "trimEnd s \<noteq> []"
  shows "hd (trimEnd s) = hd s"
proof -
  obtain suf where "s = trimEnd s @ suf" using trimEnd_decomp by blast
  then have "hd s = hd (trimEnd s @ suf)" by (rule arg_cong)
  also have "\<dots> = hd (trimEnd s)" using assms by (rule hd_append2)
  finally show ?thesis by (rule sym)
qed

lemma trim_ends:
  assumes "trim s \<noteq> []"
  shows "\<not> is_white_space (hd (trim s)) \<and> \<not> is_white_space (last (trim s))"
proof -
  from assms have te: "trimEnd (trimStart s) \<noteq> []" unfolding trim_def .
  have ne: "trimStart s \<noteq> []"
  proof
    assume "trimStart s = []"
    then have "trimEnd (trimStart s) = []" by (simp add: trimEnd_def)
    with te show False by simp
  qed
  then have "\<not> is_white_space (hd (trimStart s))"
    unfolding trimStart_def by (rule hd_dropWhile)
  moreover have "hd (trim s) = hd (trimStart s)"
    unfolding trim_def using te by (rule trimEnd_hd)
  moreover have "\<not> is_white_space (last (trim s))"
    unfolding trim_def using te by (rule trimEnd_last)
  ultimately show ?thesis by simp
qed

lemma includes_str_sublist: "includes_str s p \<longleftrightarrow> sublist p s"
proof (induction s)
  case Nil
  then show ?case by simp
next
  case (Cons c cs)
  then show ?case by (cases p) (simp_all add: sublist_code(3))
qed



lemma digits_nonempty: "digits n \<noteq> []"
  by (subst digits.simps) simp

lemma unat_digit: "d < 10 \<Longrightarrow> unat (digit d) = 48 + d"
proof -
  assume d: "d < 10"
  have "unat (digit d) = (48 + d) mod 2 ^ LENGTH(16)"
    unfolding digit_def by (rule unat_of_nat)
  also have "\<dots> = 48 + d" using d by simp
  finally show ?thesis .
qed

lemma digit_inj: "a < 10 \<Longrightarrow> b < 10 \<Longrightarrow> digit a = digit b \<Longrightarrow> a = b"
proof -
  assume a: "a < 10" and b: "b < 10" and eq: "digit a = digit b"
  from eq have "unat (digit a) = unat (digit b)" by (rule arg_cong)
  then show "a = b" by (simp only: unat_digit [OF a] unat_digit [OF b] add_left_cancel)
qed

lemma digit_not_minus: "d < 10 \<Longrightarrow> digit d \<noteq> 0x2D"
proof
  assume d: "d < 10" and eq: "digit d = 0x2D"
  from eq have "unat (digit d) = unat (0x2D :: code_unit)" by (rule arg_cong)
  then have "48 + d = unat (0x2D :: code_unit)" by (simp only: unat_digit [OF d])
  then show False by simp
qed

lemma digits_hd: "\<exists>d<10. hd (digits n) = digit d"
proof (induction n rule: digits.induct)
  case (1 n)
  show ?case
  proof (cases "n < 10")
    case True
    then have "digits n = [digit n]" by (subst digits.simps) simp
    with True show ?thesis by auto
  next
    case False
    then have "digits n = digits (n div 10) @ [digit (n mod 10)]" by (subst digits.simps) simp
    then have "hd (digits n) = hd (digits (n div 10))"
      using digits_nonempty [of "n div 10"] by simp
    with 1 [OF False] show ?thesis by simp
  qed
qed

lemma digits_not_minus: "digits n \<noteq> 0x2D # xs"
proof
  assume "digits n = 0x2D # xs"
  then have "hd (digits n) = 0x2D" by simp
  with digits_hd [of n] digit_not_minus show False by metis
qed

lemma digits_inj: "digits a = digits b \<Longrightarrow> a = b"
proof (induction a arbitrary: b rule: digits.induct)
  case (1 n)
  show ?case
  proof (cases "n < 10")
    case True
    then have "digits n = [digit n]" by (subst digits.simps) simp
    with 1(2) [symmetric] have "digits b = [digit n]" by (rule trans)
    then have len: "length (digits b) = 1" by simp
    have "b < 10"
    proof (rule ccontr)
      assume "\<not> b < 10"
      then have "digits b = digits (b div 10) @ [digit (b mod 10)]" by (subst digits.simps) simp
      with len digits_nonempty [of "b div 10"] show False by (cases "digits (b div 10)") simp_all
    qed
    then have "digits b = [digit b]" by (subst digits.simps) simp
    with \<open>digits n = [digit n]\<close> 1(2) True \<open>b < 10\<close> show ?thesis
      by (simp add: digit_inj)
  next
    case False
    then have dn: "digits n = digits (n div 10) @ [digit (n mod 10)]" by (subst digits.simps) simp
    have "\<not> b < 10"
    proof
      assume "b < 10"
      then have "digits b = [digit b]" by (subst digits.simps) simp
      with dn 1(2) digits_nonempty [of "n div 10"] show False by (cases "digits (n div 10)") simp_all
    qed
    then have db: "digits b = digits (b div 10) @ [digit (b mod 10)]" by (subst digits.simps) simp
    from dn db 1(2) have "digits (n div 10) = digits (b div 10)" "digit (n mod 10) = digit (b mod 10)"
      by simp_all
    then have "n div 10 = b div 10" "n mod 10 = b mod 10"
      using 1(1) [OF False] by (simp_all add: digit_inj)
    then show ?thesis by (metis div_mult_mod_eq)
  qed
qed


lemma toString_inj: "toString a = toString b \<Longrightarrow> a = b"
proof -
  assume eq: "toString a = toString b"
  consider "a < 0" "b < 0" | "a < 0" "0 \<le> b" | "0 \<le> a" "b < 0" | "0 \<le> a" "0 \<le> b"
    by linarith
  then show ?thesis
  proof cases
    case 1
    with eq have "digits (nat (- a)) = digits (nat (- b))" by (simp add: toString_def)
    then have "nat (- a) = nat (- b)" by (rule digits_inj)
    with 1 show ?thesis by simp
  next
    case 2
    with eq have "digits (nat b) = 0x2D # digits (nat (- a))" by (simp add: toString_def)
    then show ?thesis using digits_not_minus by blast
  next
    case 3
    with eq have "digits (nat a) = 0x2D # digits (nat (- b))" by (simp add: toString_def)
    then show ?thesis using digits_not_minus by blast
  next
    case 4
    with eq have "digits (nat a) = digits (nat b)" by (simp add: toString_def)
    then have "nat a = nat b" by (rule digits_inj)
    with 4 show ?thesis by simp
  qed
qed


section \<open>The proxy: validation, configuration, provider outcome\<close>

lemmas proxy_defs = POST_def caught_def catch_response_def authentication_failure_def falsy_def

lemmas sample_defs = configured_def unconfigured_def answering_def throwing_def params_def
  no_inherited_def

lemmas json_defs = translation_of_def optional_property_def type_error_def chat_completion_def
  resolving_def

lemma POST_provider_throws:
  assumes "\<not> falsy (req_text p)" "\<not> falsy (req_sourceLang p)" "\<not> falsy (req_targetLang p)"
    and "\<not> falsy (OPENAI_API_KEY env)"
    and "openai (the (OPENAI_API_KEY env))
           (build_request env (the (req_text p)) (the (req_sourceLang p)) (the (req_targetLang p))) = Inl e"
  shows "response (POST env openai (JsonValue p)) = catch_response e"
  using assms by (simp add: POST_def caught_def)


lemma POST_provider_resolves:
  assumes "\<not> falsy (req_text p)" "\<not> falsy (req_sourceLang p)" "\<not> falsy (req_targetLang p)"
    and "\<not> falsy (OPENAI_API_KEY env)"
    and "openai (the (OPENAI_API_KEY env))
           (build_request env (the (req_text p)) (the (req_sourceLang p)) (the (req_targetLang p))) = Inr c"
  shows "response (POST env openai (JsonValue p)) =
           (case translation_of c of
              Inl e \<Rightarrow> catch_response e
            | Inr t \<Rightarrow> \<lparr>status = 200, body = TranslationBody t\<rparr>)"
  using assms by (simp add: POST_def caught_def split: sum.splits)

lemma POST_calls_provider:
  assumes "\<not> falsy (req_text p)" "\<not> falsy (req_sourceLang p)" "\<not> falsy (req_targetLang p)"
    and "\<not> falsy (OPENAI_API_KEY env)"
  shows "provider_calls (POST env openai (JsonValue p)) =
           [\<lparr>call_apiKey = the (OPENAI_API_KEY env),
             call_request = build_request env (the (req_text p)) (the (req_sourceLang p))
                              (the (req_targetLang p))\<rparr>]"
  using assms by (simp add: POST_def caught_def Let_def split: sum.splits)

lemma catch_response_cases:
  "(authentication_failure e \<longrightarrow>
      catch_response e = \<lparr>status = 401, body = ErrorBody msg_key_invalid\<rparr>)
   \<and> (\<not> authentication_failure e \<and> err_status e = Some 429 \<longrightarrow>
      catch_response e = \<lparr>status = 429, body = ErrorBody msg_rate_limit\<rparr>)
   \<and> (\<not> authentication_failure e \<and> err_status e \<noteq> Some 429 \<longrightarrow>
      catch_response e = \<lparr>status = 500, body = ErrorBody msg_generic\<rparr>)"
  by (simp add: catch_response_def)


lemma catch_response_not_400: "status (catch_response e) \<noteq> 400"
  by (simp add: catch_response_def)

lemma languageName_unknown:
  "code \<notin> fst ` set languageNames \<Longrightarrow>
     languageName env code =
       (case inherited env code of Some t \<Rightarrow> t | None \<Rightarrow> lit ''undefined'')"
proof -
  assume out: "code \<notin> fst ` set languageNames"
  from out have "map_of languageNames code = None" by (rule iffD2 [OF map_of_eq_None_iff])
  then show ?thesis by (simp add: languageName_def)
qed

lemma POST_missing_param:
  assumes "falsy (req_text p) \<or> falsy (req_sourceLang p) \<or> falsy (req_targetLang p)"
  shows "response (POST env openai (JsonValue p)) =
           \<lparr>status = 400, body = ErrorBody msg_invalid_params\<rparr>
         \<and> provider_calls (POST env openai (JsonValue p)) = []"
  using assms by (simp add: POST_def)

text \<open>
  C1. A request body in which one of \<open>text\<close>, \<open>sourceLang\<close>, \<open>targetLang\<close> is missing or
  empty is to be answered 400 with an \<open>{ error }\<close> body and without a call to the
  provider. The guard of line 8 does so for every parsed body but one (lemma
  \<open>POST_missing_param\<close>; the empty object below). The body \<open>null\<close> has none of the
  three fields either, but the destructuring of line 6 throws on it before the guard is
  reached, and the \<open>catch\<close> block answers 500 with the generic message.
\<close>

theorem POST_null_body:
  "response (POST configured (answering None) JsonNull) =
     \<lparr>status = 500, body = ErrorBody msg_generic\<rparr>
   \<and> provider_calls (POST configured (answering None) JsonNull) = []
   \<and> response (POST configured (answering None)
         (JsonValue \<lparr>req_text = None, req_sourceLang = None, req_targetLang = None\<rparr>)) =
     \<lparr>status = 400, body = ErrorBody msg_invalid_params\<rparr>"
  by (simp add: proxy_defs destructure_null_def lit_def)

text \<open>
  C6. For every valid request body (the three fields present and non-empty): when
  \<open>OPENAI_API_KEY\<close> is absent from the environment (or is the empty string), the handler
  answers 500 with the misconfiguration message in an \<open>{ error }\<close> body and makes no
  call to the provider.
\<close>

theorem POST_missing_credential:
  assumes "\<not> falsy (req_text p)" "\<not> falsy (req_sourceLang p)" "\<not> falsy (req_targetLang p)"
    and "falsy (OPENAI_API_KEY env)"
  shows "response (POST env openai (JsonValue p)) =
           \<lparr>status = 500, body = ErrorBody msg_key_missing\<rparr>
         \<and> provider_calls (POST env openai (JsonValue p)) = []"
  using assms by (simp add: POST_def)

theorem POST_missing_credential_witness:
  "OPENAI_API_KEY unconfigured = None
   \<and> \<not> falsy (req_text (params ''Hello'' ''en'' ''pt''))
   \<and> \<not> falsy (req_sourceLang (params ''Hello'' ''en'' ''pt''))
   \<and> \<not> falsy (req_targetLang (params ''Hello'' ''en'' ''pt''))
   \<and> status (response (POST unconfigured (answering None) (JsonValue (params ''Hello'' ''en'' ''pt'')))) = 500
   \<and> provider_calls (POST unconfigured (answering None) (JsonValue (params ''Hello'' ''en'' ''pt''))) = []"
proof -
  let ?p = "params ''Hello'' ''en'' ''pt''"
  have valid: "\<not> falsy (req_text ?p)" "\<not> falsy (req_sourceLang ?p)" "\<not> falsy (req_targetLang ?p)"
    by (simp_all add: sample_defs falsy_def lit_def)
  have absent: "OPENAI_API_KEY unconfigured = None" "falsy (OPENAI_API_KEY unconfigured)"
    by (simp_all add: unconfigured_def falsy_def)
  show ?thesis
    using valid absent(1) POST_missing_credential [OF valid absent(2), of "answering None"]
    by simp
qed

text \<open>
  C2. Whatever is thrown inside the \<open>try\<close> block, by the provider call or before it:
  an authentication failure (status 401, or a message that includes
  \<open>Incorrect API key\<close>) is answered 401; a rate or quota failure (status 429 on an error
  that is not an authentication failure) is answered 429; anything else is answered 500
  with the generic message. The body of the answer is \<open>{ error: message }\<close> each time.
\<close>

theorem provider_failure_mapping:
  assumes "r = POST env openai (JsonRejects e)
      \<or> (\<not> falsy (req_text p) \<and> \<not> falsy (req_sourceLang p) \<and> \<not> falsy (req_targetLang p)
          \<and> \<not> falsy (OPENAI_API_KEY env)
          \<and> openai (the (OPENAI_API_KEY env))
               (build_request env (the (req_text p)) (the (req_sourceLang p))
                  (the (req_targetLang p))) = Inl e
          \<and> r = POST env openai (JsonValue p))"
  shows "(err_status e = Some 401 \<or> (\<exists>m. err_message e = Some m \<and> includes_str m (lit ''Incorrect API key'')) \<longrightarrow>
            response r = \<lparr>status = 401, body = ErrorBody msg_key_invalid\<rparr>)
       \<and> (err_status e = Some 429 \<and> \<not> (\<exists>m. err_message e = Some m \<and> includes_str m (lit ''Incorrect API key'')) \<longrightarrow>
            response r = \<lparr>status = 429, body = ErrorBody msg_rate_limit\<rparr>)
       \<and> (err_status e \<noteq> Some 401 \<and> err_status e \<noteq> Some 429
            \<and> \<not> (\<exists>m. err_message e = Some m \<and> includes_str m (lit ''Incorrect API key'')) \<longrightarrow>
            response r = \<lparr>status = 500, body = ErrorBody msg_generic\<rparr>)
       \<and> (\<exists>m. body (response r) = ErrorBody m)
       \<and> status (response r) \<in> {401, 429, 500}"
proof -
  have r: "response r = catch_response e"
    using assms POST_provider_throws [of p env openai e] by (auto simp: POST_def caught_def)
  have auth: "authentication_failure e \<longleftrightarrow>
      (err_status e = Some 401 \<or> (\<exists>m. err_message e = Some m \<and> includes_str m (lit ''Incorrect API key'')))"
    by (cases "err_message e") (simp_all add: authentication_failure_def)
  show ?thesis
  proof (cases "authentication_failure e")
    case True
    with auth show ?thesis by (auto simp: r catch_response_def)
  next
    case False
    with auth show ?thesis by (simp add: r catch_response_def)
  qed
qed

theorem provider_failure_mapping_witness:
  "response (POST configured
       (throwing \<lparr>err_status = Some 401, err_message = Some (lit ''Incorrect API key provided: sk-test'')\<rparr>)
       (JsonValue (params ''Hello'' ''en'' ''pt''))) =
     \<lparr>status = 401, body = ErrorBody msg_key_invalid\<rparr>
   \<and> response (POST configured
       (throwing \<lparr>err_status = Some 429, err_message = Some (lit ''Rate limit reached'')\<rparr>)
       (JsonValue (params ''Hello'' ''en'' ''pt''))) =
     \<lparr>status = 429, body = ErrorBody msg_rate_limit\<rparr>
   \<and> response (POST configured
       (throwing \<lparr>err_status = Some 503, err_message = Some (lit ''Service unavailable'')\<rparr>)
       (JsonValue (params ''Hello'' ''en'' ''pt''))) =
     \<lparr>status = 500, body = ErrorBody msg_generic\<rparr>"
proof (intro conjI)
  let ?p = "params ''Hello'' ''en'' ''pt''"
  have valid: "\<not> falsy (req_text ?p) \<and> \<not> falsy (req_sourceLang ?p) \<and> \<not> falsy (req_targetLang ?p)
      \<and> \<not> falsy (OPENAI_API_KEY configured)"
    by (simp add: sample_defs falsy_def lit_def)
  let ?e1 = "\<lparr>err_status = Some 401, err_message = Some (lit ''Incorrect API key provided: sk-test'')\<rparr>"
  let ?e2 = "\<lparr>err_status = Some 429, err_message = Some (lit ''Rate limit reached'')\<rparr>"
  let ?e3 = "\<lparr>err_status = Some 503, err_message = Some (lit ''Service unavailable'')\<rparr>"
  show "response (POST configured (throwing ?e1) (JsonValue ?p)) =
          \<lparr>status = 401, body = ErrorBody msg_key_invalid\<rparr>"
    using valid
      provider_failure_mapping [where r = "POST configured (throwing ?e1) (JsonValue ?p)"
        and env = configured and openai = "throwing ?e1" and e = ?e1 and p = ?p]
    by (simp add: throwing_def)
  have no2: "\<not> includes_str (lit ''Rate limit reached'') (lit ''Incorrect API key'')"
    by (simp add: lit_def)
  show "response (POST configured (throwing ?e2) (JsonValue ?p)) =
          \<lparr>status = 429, body = ErrorBody msg_rate_limit\<rparr>"
    using valid no2
      provider_failure_mapping [where r = "POST configured (throwing ?e2) (JsonValue ?p)"
        and env = configured and openai = "throwing ?e2" and e = ?e2 and p = ?p]
    by (simp add: throwing_def)
  have no3: "\<not> includes_str (lit ''Service unavailable'') (lit ''Incorrect API key'')"
    by (simp add: lit_def)
  show "response (POST configured (throwing ?e3) (JsonValue ?p)) =
          \<lparr>status = 500, body = ErrorBody msg_generic\<rparr>"
    using valid no3
      provider_failure_mapping [where r = "POST configured (throwing ?e3) (JsonValue ?p)"
        and env = configured and openai = "throwing ?e3" and e = ?e3 and p = ?p]
    by (simp add: throwing_def)
qed


text \<open>
  What line 64 makes of a completion of the shape the provider documents: the content
  of the first choice, trimmed; the empty string when there is no choice, no message or
  no content. The content is \<open>pre @ trim s @ suf\<close> with \<open>pre\<close> and \<open>suf\<close> all white
  space, and \<open>trim s\<close>, when not empty, neither begins nor ends with white space.
\<close>

lemma translation_of_first_choice:
  assumes "property (lit ''choices'') c = Some (JArr (ch # rest))"
    and "property (lit ''message'') ch = Some m"
    and "property (lit ''content'') m = Some (JStr s)"
  shows "translation_of c = Inr (trim s)"
proof -
  from assms(1) have c: "c \<noteq> JNull" by (cases c) simp_all
  from assms(2) have ch: "ch \<noteq> JNull" by (cases ch) simp_all
  from assms(3) have m: "m \<noteq> JNull" by (cases m) simp_all
  have 1: "optional_property (lit ''message'') (Some ch) = Some m"
    using assms(2) ch by (cases ch) (simp_all add: optional_property_def)
  have 2: "optional_property (lit ''content'') (Some m) = Some (JStr s)"
    using assms(3) m by (cases m) (simp_all add: optional_property_def)
  show ?thesis
    using c assms(1) by (cases c) (simp_all add: translation_of_def 1 2)
qed

lemma translation_of_nothing:
  assumes "property (lit ''choices'') c = Some (JArr [])
      \<or> (\<exists>ch rest. property (lit ''choices'') c = Some (JArr (ch # rest))
            \<and> (ch = JNull \<or> property (lit ''message'') ch = None
                \<or> property (lit ''message'') ch = Some JNull))
      \<or> (\<exists>ch rest m. property (lit ''choices'') c = Some (JArr (ch # rest))
            \<and> property (lit ''message'') ch = Some m
            \<and> (property (lit ''content'') m = None \<or> property (lit ''content'') m = Some JNull))"
  shows "translation_of c = Inr []"
proof -
  from assms obtain xs where xs: "property (lit ''choices'') c = Some (JArr xs)" by blast
  then have c: "c \<noteq> JNull" by (cases c) simp_all
  have t: "translation_of c =
      (case optional_property (lit ''content'')
              (optional_property (lit ''message'') (first_element (JArr xs))) of
         None \<Rightarrow> Inr []
       | Some JNull \<Rightarrow> Inr []
       | Some (JStr s) \<Rightarrow> Inr (trim s)
       | Some _ \<Rightarrow>
           Inl (type_error ''completion.choices[0]?.message?.content?.trim is not a function''))"
    using c xs by (cases c) (simp_all add: translation_of_def)
  from assms xs consider "xs = []"
    | ch rest where "xs = ch # rest" "ch = JNull \<or> property (lit ''message'') ch = None
                \<or> property (lit ''message'') ch = Some JNull"
    | ch rest m where "xs = ch # rest" "property (lit ''message'') ch = Some m"
        "property (lit ''content'') m = None \<or> property (lit ''content'') m = Some JNull"
    by auto
  then show ?thesis
  proof cases
    case 1
    then show ?thesis unfolding t by (simp add: optional_property_def)
  next
    case 2
    then show ?thesis unfolding t
      by (cases ch) (auto simp: optional_property_def)
  next
    case 3
    from 3(2) have ch: "ch \<noteq> JNull" by (cases ch) simp_all
    have "optional_property (lit ''message'') (first_element (JArr xs)) = Some m"
      using 3(1,2) ch by (cases ch) (simp_all add: optional_property_def)
    then show ?thesis unfolding t using 3(3)
      by (cases m) (auto simp: optional_property_def)
  qed
qed

lemma translation_of_no_choices:
  "property (lit ''choices'') c = None \<Longrightarrow> \<exists>e. translation_of c = Inl e \<and> err_status e = None"
  by (cases c) (simp_all add: translation_of_def type_error_def)

text \<open>
  C5. A resolved provider call is to be answered 200 with \<open>{ translation: s }\<close>, \<open>s\<close> the
  generated text trimmed, and with \<open>{ translation: "" }\<close> when the answer of the provider
  is empty or missing. The handler does so when the completion has no choice, no message or
  no content (the optional steps of line 64, lemma \<open>translation_of_nothing\<close>; the empty
  \<open>choices\<close> array below), but not when the completion has no \<open>choices\<close> at all:
  \<open>completion.choices[0]\<close> has no optional step before \<open>[0]\<close>, so on the completion
  \<open>{}\<close> it throws, and the \<open>catch\<close> block answers 500 with the generic message, after
  the provider was called.
\<close>

theorem completion_without_choices:
  "response (POST configured (resolving (JObj [])) (JsonValue (params ''Hello'' ''en'' ''pt''))) =
     \<lparr>status = 500, body = ErrorBody msg_generic\<rparr>
   \<and> length (provider_calls
         (POST configured (resolving (JObj [])) (JsonValue (params ''Hello'' ''en'' ''pt'')))) = 1
   \<and> response (POST configured (resolving (JObj [(lit ''choices'', JArr [])]))
         (JsonValue (params ''Hello'' ''en'' ''pt''))) =
     \<lparr>status = 200, body = TranslationBody []\<rparr>
   \<and> response (POST configured (answering (Some (lit ('' Ol'' @ [CHR 0xE1, CHR 0x0A]))))
         (JsonValue (params ''Hello'' ''en'' ''pt''))) =
     \<lparr>status = 200, body = TranslationBody (lit (''Ol'' @ [CHR 0xE1]))\<rparr>"
  by (simp add: proxy_defs sample_defs json_defs trim_def trimStart_def trimEnd_def
      is_white_space_def white_space_def lit_def)

text \<open>
  C8 (amended). For every valid request with a configured credential whose \<open>sourceLang\<close>
  or \<open>targetLang\<close> is a non-empty code outside \<open>languageNames\<close>: the handler does not
  answer 400; it calls the provider once, with the fixed system message and the prompt
  built around the text, and answers what that call gives. In the prompt a code of the
  table has its name, and a code outside the table has what \<open>languageNames[code]\<close>
  gives in a template literal: the text \<open>undefined\<close> when the object has no property of
  that name, and the text of the inherited property (for \<open>constructor\<close>, \<open>toString\<close>,
  \<open>__proto__\<close>, ...) otherwise.
\<close>

theorem unknown_language_passes_through:
  assumes "\<not> falsy (req_text p)" "\<not> falsy (req_sourceLang p)" "\<not> falsy (req_targetLang p)"
    and "\<not> falsy (OPENAI_API_KEY env)"
    and "the (req_sourceLang p) \<notin> fst ` set languageNames
         \<or> the (req_targetLang p) \<notin> fst ` set languageNames"
    and "r = POST env openai (JsonValue p)"
  shows "provider_calls r =
         [\<lparr>call_apiKey = the (OPENAI_API_KEY env),
           call_request =
           \<lparr>model = lit ''gpt-4o'',
            messages =
              [\<lparr>role = lit ''system'',
                content =
                  lit (''Voc'' @ [CHR 0xEA] @ '' '' @ [CHR 0xE9] @
                     '' um tradutor profissional especializado em tradu'' @ [CHR 0xE7, CHR 0xE3] @
                     ''o precisa e natural entre idiomas. Retorne apenas a tradu'' @
                     [CHR 0xE7, CHR 0xE3] @ ''o solicitada, sem explica'' @ [CHR 0xE7, CHR 0xF5] @
                     ''es.'')\<rparr>,
               \<lparr>role = lit ''user'',
                content =
                  lit ''Traduza o seguinte texto de '' @
                  (case map_of languageNames (the (req_sourceLang p)) of
                     Some name \<Rightarrow> name
                   | None \<Rightarrow>
                       (case inherited env (the (req_sourceLang p)) of
                          Some t \<Rightarrow> t
                        | None \<Rightarrow> lit ''undefined'')) @
                  lit '' para '' @
                  (case map_of languageNames (the (req_targetLang p)) of
                     Some name \<Rightarrow> name
                   | None \<Rightarrow>
                       (case inherited env (the (req_targetLang p)) of
                          Some t \<Rightarrow> t
                        | None \<Rightarrow> lit ''undefined'')) @
                  lit (''. '' @ [CHR 0x0A] @ ''Retorne APENAS a tradu'' @ [CHR 0xE7, CHR 0xE3] @
                       ''o, sem explica'' @ [CHR 0xE7, CHR 0xF5] @ ''es ou texto adicional.'' @
                       [CHR 0x0A, CHR 0x0A] @ ''Texto: '') @
                  the (req_text p)\<rparr>],
            temperature = 3 / 10,
            max_tokens = 1000\<rparr>\<rparr>]
       \<and> response r =
           (case openai (the (OPENAI_API_KEY env)) (call_request (hd (provider_calls r))) of
              Inl e \<Rightarrow> catch_response e
            | Inr c \<Rightarrow>
                (case translation_of c of
                   Inl e \<Rightarrow> catch_response e
                 | Inr t \<Rightarrow> \<lparr>status = 200, body = TranslationBody t\<rparr>))
       \<and> status (response r) \<noteq> 400
       \<and> (the (req_sourceLang p) \<notin> fst ` set languageNames \<longrightarrow>
            prefix
              (lit ''Traduza o seguinte texto de '' @
               (case inherited env (the (req_sourceLang p)) of
                  Some t \<Rightarrow> t
                | None \<Rightarrow> lit ''undefined'') @
               lit '' para '')
              (content (messages (call_request (hd (provider_calls r))) ! 1)))
       \<and> (the (req_targetLang p) \<notin> fst ` set languageNames \<longrightarrow>
            sublist
              (lit '' para '' @
               (case inherited env (the (req_targetLang p)) of
                  Some t \<Rightarrow> t
                | None \<Rightarrow> lit ''undefined'') @
               lit ''. '')
              (content (messages (call_request (hd (provider_calls r))) ! 1)))"
proof (intro conjI)
  have calls: "provider_calls r =
      [\<lparr>call_apiKey = the (OPENAI_API_KEY env),
        call_request = build_request env (the (req_text p)) (the (req_sourceLang p))
                         (the (req_targetLang p))\<rparr>]"
    using assms(1-4) by (simp add: assms(6) POST_calls_provider)
  show "provider_calls r =
         [\<lparr>call_apiKey = the (OPENAI_API_KEY env),
           call_request =
           \<lparr>model = lit ''gpt-4o'',
            messages =
              [\<lparr>role = lit ''system'',
                content =
                  lit (''Voc'' @ [CHR 0xEA] @ '' '' @ [CHR 0xE9] @
                     '' um tradutor profissional especializado em tradu'' @ [CHR 0xE7, CHR 0xE3] @
                     ''o precisa e natural entre idiomas. Retorne apenas a tradu'' @
                     [CHR 0xE7, CHR 0xE3] @ ''o solicitada, sem explica'' @ [CHR 0xE7, CHR 0xF5] @
                     ''es.'')\<rparr>,
               \<lparr>role = lit ''user'',
                content =
                  lit ''Traduza o seguinte texto de '' @
                  (case map_of languageNames (the (req_sourceLang p)) of
                     Some name \<Rightarrow> name
                   | None \<Rightarrow>
                       (case inherited env (the (req_sourceLang p)) of
                          Some t \<Rightarrow> t
                        | None \<Rightarrow> lit ''undefined'')) @
                  lit '' para '' @
                  (case map_of languageNames (the (req_targetLang p)) of
                     Some name \<Rightarrow> name
                   | None \<Rightarrow>
                       (case inherited env (the (req_targetLang p)) of
                          Some t \<Rightarrow> t
                        | None \<Rightarrow> lit ''undefined'')) @
                  lit (''. '' @ [CHR 0x0A] @ ''Retorne APENAS a tradu'' @ [CHR 0xE7, CHR 0xE3] @
                       ''o, sem explica'' @ [CHR 0xE7, CHR 0xF5] @ ''es ou texto adicional.'' @
                       [CHR 0x0A, CHR 0x0A] @ ''Texto: '') @
                  the (req_text p)\<rparr>],
            temperature = 3 / 10,
            max_tokens = 1000\<rparr>\<rparr>]"
    unfolding calls
    by (simp add: build_request_def prompt_def languageName_def system_content_def)
  show resp: "response r =
           (case openai (the (OPENAI_API_KEY env)) (call_request (hd (provider_calls r))) of
              Inl e \<Rightarrow> catch_response e
            | Inr c \<Rightarrow>
                (case translation_of c of
                   Inl e \<Rightarrow> catch_response e
                 | Inr t \<Rightarrow> \<lparr>status = 200, body = TranslationBody t\<rparr>))"
    unfolding calls using assms(1-4)
    by (simp add: assms(6) POST_def caught_def split: sum.splits)
  show "status (response r) \<noteq> 400"
    unfolding resp by (simp add: catch_response_not_400 split: sum.splits)
  have user: "content (messages (call_request (hd (provider_calls r))) ! 1) =
      lit ''Traduza o seguinte texto de '' @ languageName env (the (req_sourceLang p)) @
      lit '' para '' @ languageName env (the (req_targetLang p)) @
      lit (''. '' @ [CHR 0x0A] @ ''Retorne APENAS a tradu'' @ [CHR 0xE7, CHR 0xE3] @
           ''o, sem explica'' @ [CHR 0xE7, CHR 0xF5] @ ''es ou texto adicional.'' @
           [CHR 0x0A, CHR 0x0A] @ ''Texto: '') @
      the (req_text p)"
    unfolding calls by (simp add: build_request_def prompt_def)
  show "the (req_sourceLang p) \<notin> fst ` set languageNames \<longrightarrow>
            prefix
              (lit ''Traduza o seguinte texto de '' @
               (case inherited env (the (req_sourceLang p)) of
                  Some t \<Rightarrow> t
                | None \<Rightarrow> lit ''undefined'') @
               lit '' para '')
              (content (messages (call_request (hd (provider_calls r))) ! 1))"
  proof
    assume "the (req_sourceLang p) \<notin> fst ` set languageNames"
    then have n: "languageName env (the (req_sourceLang p)) =
        (case inherited env (the (req_sourceLang p)) of Some t \<Rightarrow> t | None \<Rightarrow> lit ''undefined'')"
      by (rule languageName_unknown)
    show "prefix
              (lit ''Traduza o seguinte texto de '' @
               (case inherited env (the (req_sourceLang p)) of
                  Some t \<Rightarrow> t
                | None \<Rightarrow> lit ''undefined'') @
               lit '' para '')
              (content (messages (call_request (hd (provider_calls r))) ! 1))"
      unfolding user n by simp
  qed
  show "the (req_targetLang p) \<notin> fst ` set languageNames \<longrightarrow>
            sublist
              (lit '' para '' @
               (case inherited env (the (req_targetLang p)) of
                  Some t \<Rightarrow> t
                | None \<Rightarrow> lit ''undefined'') @
               lit ''. '')
              (content (messages (call_request (hd (provider_calls r))) ! 1))"
  proof
    assume "the (req_targetLang p) \<notin> fst ` set languageNames"
    then have n: "languageName env (the (req_targetLang p)) =
        (case inherited env (the (req_targetLang p)) of Some t \<Rightarrow> t | None \<Rightarrow> lit ''undefined'')"
      by (rule languageName_unknown)
    have tail: "lit (''. '' @ [CHR 0x0A] @ ''Retorne APENAS a tradu'' @ [CHR 0xE7, CHR 0xE3] @
           ''o, sem explica'' @ [CHR 0xE7, CHR 0xF5] @ ''es ou texto adicional.'' @
           [CHR 0x0A, CHR 0x0A] @ ''Texto: '') =
        lit ''. '' @
        lit ([CHR 0x0A] @ ''Retorne APENAS a tradu'' @ [CHR 0xE7, CHR 0xE3] @
           ''o, sem explica'' @ [CHR 0xE7, CHR 0xF5] @ ''es ou texto adicional.'' @
           [CHR 0x0A, CHR 0x0A] @ ''Texto: '')"
      by (simp add: lit_def)
    have "content (messages (call_request (hd (provider_calls r))) ! 1) =
        (lit ''Traduza o seguinte texto de '' @ languageName env (the (req_sourceLang p))) @
        (lit '' para '' @
         (case inherited env (the (req_targetLang p)) of Some t \<Rightarrow> t | None \<Rightarrow> lit ''undefined'') @
         lit ''. '') @
        (lit ([CHR 0x0A] @ ''Retorne APENAS a tradu'' @ [CHR 0xE7, CHR 0xE3] @
           ''o, sem explica'' @ [CHR 0xE7, CHR 0xF5] @ ''es ou texto adicional.'' @
           [CHR 0x0A, CHR 0x0A] @ ''Texto: '') @
         the (req_text p))"
      unfolding user n tail by simp
    then show "sublist
              (lit '' para '' @
               (case inherited env (the (req_targetLang p)) of
                  Some t \<Rightarrow> t
                | None \<Rightarrow> lit ''undefined'') @
               lit ''. '')
              (content (messages (call_request (hd (provider_calls r))) ! 1))"
      unfolding sublist_def by blast
  qed
qed

theorem unknown_language_passes_through_witness:
  "lit ''xx'' \<notin> fst ` set languageNames
   \<and> provider_calls (POST configured (answering None) (JsonValue (params ''Hello'' ''xx'' ''pt''))) =
       [\<lparr>call_apiKey = lit ''sk-test'',
         call_request =
           \<lparr>model = lit ''gpt-4o'',
            messages =
              [\<lparr>role = lit ''system'', content = system_content\<rparr>,
               \<lparr>role = lit ''user'',
                content =
                  lit (''Traduza o seguinte texto de undefined para Portugu'' @ [CHR 0xEA] @ ''s. '' @
                 [CHR 0x0A] @ ''Retorne APENAS a tradu'' @ [CHR 0xE7, CHR 0xE3] @
                 ''o, sem explica'' @ [CHR 0xE7, CHR 0xF5] @ ''es ou texto adicional.'' @
                 [CHR 0x0A, CHR 0x0A] @ ''Texto: Hello'')\<rparr>],
            temperature = 3 / 10,
            max_tokens = 1000\<rparr>\<rparr>]
   \<and> status (response (POST configured (answering None) (JsonValue (params ''Hello'' ''xx'' ''pt'')))) = 200"
proof -
  let ?p = "params ''Hello'' ''xx'' ''pt''"
  have valid: "\<not> falsy (req_text ?p)" "\<not> falsy (req_sourceLang ?p)" "\<not> falsy (req_targetLang ?p)"
      "\<not> falsy (OPENAI_API_KEY configured)"
    by (simp_all add: sample_defs falsy_def lit_def)
  have out: "lit ''xx'' \<notin> fst ` set languageNames"
    by (simp add: languageNames_def lit_def)
  then have unknown: "the (req_sourceLang ?p) \<notin> fst ` set languageNames
         \<or> the (req_targetLang ?p) \<notin> fst ` set languageNames"
    by (simp add: params_def)
  have ok: "status (response (POST configured (answering None) (JsonValue ?p))) = 200"
    by (simp add: proxy_defs sample_defs json_defs lit_def)
  have pt: "map_of languageNames (lit ''pt'') = Some (lit (''Portugu'' @ [CHR 0xEA] @ ''s''))"
    by (simp add: languageNames_def lit_def)
  have xx: "map_of languageNames (lit ''xx'') = None"
    using out by (simp add: map_of_eq_None_iff)
  have calls: "provider_calls (POST configured (answering None) (JsonValue ?p)) =
      [\<lparr>call_apiKey = lit ''sk-test'',
        call_request =
          \<lparr>model = lit ''gpt-4o'',
           messages =
             [\<lparr>role = lit ''system'',
               content =
                 lit (''Voc'' @ [CHR 0xEA] @ '' '' @ [CHR 0xE9] @
                     '' um tradutor profissional especializado em tradu'' @ [CHR 0xE7, CHR 0xE3] @
                     ''o precisa e natural entre idiomas. Retorne apenas a tradu'' @
                     [CHR 0xE7, CHR 0xE3] @ ''o solicitada, sem explica'' @ [CHR 0xE7, CHR 0xF5] @
                     ''es.'')\<rparr>,
              \<lparr>role = lit ''user'',
               content =
                 lit ''Traduza o seguinte texto de '' @ lit ''undefined'' @ lit '' para '' @
                 lit (''Portugu'' @ [CHR 0xEA] @ ''s'') @
                 lit (''. '' @ [CHR 0x0A] @ ''Retorne APENAS a tradu'' @ [CHR 0xE7, CHR 0xE3] @
                       ''o, sem explica'' @ [CHR 0xE7, CHR 0xF5] @ ''es ou texto adicional.'' @
                       [CHR 0x0A, CHR 0x0A] @ ''Texto: '') @
                 lit ''Hello''\<rparr>],
           temperature = 3 / 10,
           max_tokens = 1000\<rparr>\<rparr>]"
    using unknown_language_passes_through [OF valid unknown refl, of "answering None", THEN conjunct1]
    by (simp add: params_def configured_def no_inherited_def pt xx)
  show ?thesis
    unfolding calls using out ok by (simp add: system_content_def lit_def)
qed

text \<open>
  C8 as stated fails on a code that names an inherited property: \<open>constructor\<close> is not
  in the table, and the prompt has the text of the function \<open>Object\<close> in the place of the
  name, neither \<open>undefined\<close> nor nothing.
\<close>

theorem inherited_name_counterexample:
  "lit ''constructor'' \<notin> fst ` set languageNames
   \<and> content (messages (call_request (hd (provider_calls
         (POST node (answering None) (JsonValue (params ''Hello'' ''constructor'' ''pt'')))))) ! 1) =
       lit (''Traduza o seguinte texto de function Object() { [native code] } para Portugu'' @ [CHR 0xEA] @ ''s. '' @
                 [CHR 0x0A] @ ''Retorne APENAS a tradu'' @ [CHR 0xE7, CHR 0xE3] @
                 ''o, sem explica'' @ [CHR 0xE7, CHR 0xF5] @ ''es ou texto adicional.'' @
                 [CHR 0x0A, CHR 0x0A] @ ''Texto: Hello'')
   \<and> content (messages (call_request (hd (provider_calls
         (POST node (answering None) (JsonValue (params ''Hello'' ''constructor'' ''pt'')))))) ! 1) \<noteq>
       lit (''Traduza o seguinte texto de undefined para Portugu'' @ [CHR 0xEA] @ ''s. '' @
                 [CHR 0x0A] @ ''Retorne APENAS a tradu'' @ [CHR 0xE7, CHR 0xE3] @
                 ''o, sem explica'' @ [CHR 0xE7, CHR 0xF5] @ ''es ou texto adicional.'' @
                 [CHR 0x0A, CHR 0x0A] @ ''Texto: Hello'')
   \<and> content (messages (call_request (hd (provider_calls
         (POST node (answering None) (JsonValue (params ''Hello'' ''constructor'' ''pt'')))))) ! 1) \<noteq>
       lit (''Traduza o seguinte texto de  para Portugu'' @ [CHR 0xEA] @ ''s. '' @
                 [CHR 0x0A] @ ''Retorne APENAS a tradu'' @ [CHR 0xE7, CHR 0xE3] @
                 ''o, sem explica'' @ [CHR 0xE7, CHR 0xF5] @ ''es ou texto adicional.'' @
                 [CHR 0x0A, CHR 0x0A] @ ''Texto: Hello'')"
  by (simp add: proxy_defs sample_defs json_defs node_def node_prototype_def build_request_def
      prompt_def languageName_def languageNames_def lit_def)


section \<open>The client: history, swap, validation, failure\<close>

lemmas client_defs = handleTranslate_def handleTranslate_start_def handleTranslate_resume_def
  swapLanguages_def copyToClipboard_def loadFromHistory_def

lemmas string_eval = trim_def trimStart_def trimEnd_def is_white_space_def white_space_def lit_def

lemma full_state_text: "trim (sourceText full_state) \<noteq> []"
  by (simp add: full_state_def initial_state_def string_eval)

lemma full_state_history: "length (history full_state) = 10"
  by (simp add: full_state_def)

lemma resume_history_length:
  "length (history c) \<le> 10 \<Longrightarrow>
     length (history (fst (handleTranslate_resume s outcome now date c))) \<le> 10"
  by (cases outcome) (simp_all add: handleTranslate_resume_def Let_def)

lemma step_history_length:
  "length (history (ui a)) \<le> 10 \<Longrightarrow> length (history (ui (step x a))) \<le> 10"
  by (cases x) (simp_all add: resume_history_length handleTranslate_start_def swapLanguages_def
      copyToClipboard_def loadFromHistory_def)

lemma foldl_history_length:
  "length (history (ui a)) \<le> 10 \<Longrightarrow>
     length (history (ui (foldl (\<lambda>a x. step x a) a as))) \<le> 10"
proof (induction as arbitrary: a)
  case Nil
  then show ?case by simp
next
  case (Cons x as)
  from Cons.prems have "length (history (ui (step x a))) \<le> 10" by (rule step_history_length)
  then show ?case using Cons.IH by simp
qed

lemma ids_from_mono: "ids_from S h \<Longrightarrow> S \<subseteq> T \<Longrightarrow> ids_from T h"
  unfolding ids_from_def by blast

lemma ids_from_take: "ids_from S h \<Longrightarrow> ids_from S (take n h)"
proof -
  assume a: "ids_from S h"
  have "set (take n h) \<subseteq> set h" by (rule set_take_subset)
  moreover have "distinct (map t_id (take n h))"
    using a unfolding ids_from_def by (simp add: take_map [symmetric])
  ultimately show ?thesis using a unfolding ids_from_def by blast
qed

lemma ids_from_Cons:
  assumes "ids_from S h" "now \<notin> S" "t_id r = toString now"
  shows "ids_from (insert now S) (r # h)"
proof -
  have "toString now \<notin> toString ` S"
  proof
    assume "toString now \<in> toString ` S"
    then obtain m where "m \<in> S" "toString now = toString m" by blast
    then have "now = m" using toString_inj by blast
    with \<open>m \<in> S\<close> assms(2) show False by simp
  qed
  with assms(1) have "t_id r \<notin> t_id ` set h" unfolding ids_from_def assms(3) by blast
  with assms(1,3) show ?thesis unfolding ids_from_def by auto
qed

lemma ids_inv_mono: "ids_inv S a \<Longrightarrow> S \<subseteq> T \<Longrightarrow> ids_inv T a"
  unfolding ids_inv_def using ids_from_mono by blast

lemma settle_ids_inv:
  assumes inv: "ids_inv S a" and fresh: "set (reading (Settle i outcome now date)) \<inter> S = {}"
  shows "ids_inv (S \<union> set (reading (Settle i outcome now date))) (step (Settle i outcome now date) a)"
proof (cases "i < length (pending a)")
  case False
  then have "step (Settle i outcome now date) a = a" by simp
  with inv show ?thesis by (simp add: ids_inv_mono)
next
  case True
  let ?S' = "S \<union> set (reading (Settle i outcome now date))"
  have sub: "set (take i (pending a) @ drop (Suc i) (pending a)) \<subseteq> set (pending a)"
    using set_take_subset [of i "pending a"] set_drop_subset [of "Suc i" "pending a"] by simp
  have pend: "\<forall>c\<in>set (take i (pending a) @ drop (Suc i) (pending a)). ids_from ?S' (history c)"
  proof
    fix c assume "c \<in> set (take i (pending a) @ drop (Suc i) (pending a))"
    with sub have "c \<in> set (pending a)" by blast
    with inv have "ids_from S (history c)" unfolding ids_inv_def by blast
    then show "ids_from ?S' (history c)" by (rule ids_from_mono) blast
  qed
  from True have "pending a ! i \<in> set (pending a)" by simp
  with inv have cl: "ids_from S (history (pending a ! i))" unfolding ids_inv_def by blast
  from inv have cur: "ids_from S (history (ui a))" unfolding ids_inv_def by blast
  have "ids_from ?S' (history (fst (handleTranslate_resume (pending a ! i) outcome now date (ui a))))"
  proof (cases outcome)
    case Throws
    then show ?thesis using cur by (simp add: handleTranslate_resume_def)
  next
    case (Responds ok d)
    show ?thesis
    proof (cases ok)
      case False
      with Responds show ?thesis using cur by (simp add: handleTranslate_resume_def Let_def)
    next
      case True
      with Responds fresh have "now \<notin> S" by simp
      with ids_from_take [OF cl, of 9]
      have "ids_from (insert now S)
              (\<lparr>t_id = toString now, t_from = sourceLang (pending a ! i),
                 t_to = targetLang (pending a ! i), t_original = sourceText (pending a ! i),
                 t_translated = data_translation d, t_timestamp = date\<rparr>
               # take 9 (history (pending a ! i)))"
        by (rule ids_from_Cons) simp
      with Responds True show ?thesis by (simp add: handleTranslate_resume_def)
    qed
  qed
  with pend True show ?thesis by (simp add: ids_inv_def)
qed

lemma step_ids_inv:
  assumes inv: "ids_inv S a" and fresh: "set (reading x) \<inter> S = {}"
  shows "ids_inv (S \<union> set (reading x)) (step x a)"
proof (cases x)
  case (Settle i outcome now date)
  with settle_ids_inv [OF inv] fresh show ?thesis by simp
next
  case Translate
  with inv show ?thesis by (simp add: ids_inv_def handleTranslate_start_def)
qed (use inv in \<open>simp_all add: ids_inv_def swapLanguages_def copyToClipboard_def loadFromHistory_def\<close>)

lemma foldl_ids_inv:
  "ids_inv S a \<Longrightarrow> distinct (readings as) \<Longrightarrow> set (readings as) \<inter> S = {} \<Longrightarrow>
     ids_inv (S \<union> set (readings as)) (foldl (\<lambda>a x. step x a) a as)"
proof (induction as arbitrary: S a)
  case Nil
  then show ?case by (simp add: readings_def)
next
  case (Cons x as)
  have r: "readings (x # as) = reading x @ readings as" by (simp add: readings_def)
  from Cons.prems(3) have fresh: "set (reading x) \<inter> S = {}" unfolding r by auto
  have inv': "ids_inv (S \<union> set (reading x)) (step x a)"
    using Cons.prems(1) fresh by (rule step_ids_inv)
  from Cons.prems(2) have d: "distinct (readings as)" unfolding r by simp
  from Cons.prems(2,3) have f: "set (readings as) \<inter> (S \<union> set (reading x)) = {}"
    unfolding r by auto
  have "ids_inv (S \<union> set (reading x) \<union> set (readings as)) (foldl (\<lambda>a x. step x a) (step x a) as)"
    using inv' d f by (rule Cons.IH)
  moreover have "S \<union> set (reading x) \<union> set (readings as) = S \<union> set (readings (x # as))"
    unfolding r by auto
  ultimately show ?case by simp
qed

lemma step_changes_history:
  "history (ui (step x a)) \<noteq> history (ui a) \<Longrightarrow>
     \<exists>i d now date. x = Settle i (Responds True d) now date \<and> i < length (pending a)"
proof (cases x)
  case (Settle i outcome now date)
  assume ch: "history (ui (step x a)) \<noteq> history (ui a)"
  show ?thesis
  proof (cases outcome)
    case Throws
    with Settle ch show ?thesis by (simp add: handleTranslate_resume_def split: if_splits)
  next
    case (Responds ok d)
    with Settle ch show ?thesis
      by (cases ok) (simp_all add: handleTranslate_resume_def Let_def split: if_splits)
  qed
qed (simp_all add: handleTranslate_start_def swapLanguages_def copyToClipboard_def
      loadFromHistory_def split: if_splits)


text \<open>
  Where the identifiers can collide. A record enters the history only through a
  successful answer, its \<open>id\<close> is the decimal text of \<open>Date.now()\<close> at that moment, and
  different clock values have different texts: only answers that read the same clock
  value give records of the same \<open>id\<close>.
\<close>

lemma ids_distinct_by_clock:
  "(distinct (readings as) \<longrightarrow> distinct (map t_id (history (ui (run as)))))
   \<and> (history (ui (step x a)) \<noteq> history (ui a) \<longrightarrow>
        (\<exists>i d now date. x = Settle i (Responds True d) now date \<and> i < length (pending a)
           \<and> t_id (hd (history (ui (step x a)))) = toString now))
   \<and> (toString m = toString n \<longleftrightarrow> m = n)"
proof (intro conjI impI)
  assume d: "distinct (readings as)"
  have "ids_inv {} initial_session"
    by (simp add: ids_inv_def ids_from_def initial_session_def initial_state_def)
  then have "ids_inv ({} \<union> set (readings as)) (foldl (\<lambda>a x. step x a) initial_session as)"
    using d by (rule foldl_ids_inv) simp
  then show "distinct (map t_id (history (ui (run as))))"
    unfolding run_def ids_inv_def ids_from_def by blast
next
  assume ch: "history (ui (step x a)) \<noteq> history (ui a)"
  then obtain i d now date where x: "x = Settle i (Responds True d) now date" "i < length (pending a)"
    using step_changes_history by blast
  then have "t_id (hd (history (ui (step x a)))) = toString now"
    by (simp add: handleTranslate_resume_def)
  with x show "\<exists>i d now date. x = Settle i (Responds True d) now date \<and> i < length (pending a)
           \<and> t_id (hd (history (ui (step x a)))) = toString now"
    by blast
next
  show "toString m = toString n \<longleftrightarrow> m = n" using toString_inj by blast
qed


text \<open>
  C3. In every state that a sequence of actions reaches from the initial state, the
  history has at most 10 records. A successful \<open>handleTranslate\<close> puts the new record at
  the front of the history and keeps the first 9 of the old ones: on a history of 10
  records the one at index 9 is dropped and every other record moves one place down.
\<close>

theorem history_bounded:
  "length (history (ui (run as))) \<le> 10
   \<and> (trim (sourceText s) \<noteq> [] \<longrightarrow>
        history (fst (handleTranslate s (Responds True d) now date)) =
          \<lparr>t_id = toString now, t_from = sourceLang s, t_to = targetLang s,
            t_original = sourceText s, t_translated = data_translation d, t_timestamp = date\<rparr>
          # take 9 (history s)
        \<and> length (history (fst (handleTranslate s (Responds True d) now date))) \<le> 10
        \<and> (length (history s) = 10 \<longrightarrow>
             history (fst (handleTranslate s (Responds True d) now date)) =
               \<lparr>t_id = toString now, t_from = sourceLang s, t_to = targetLang s,
                 t_original = sourceText s, t_translated = data_translation d, t_timestamp = date\<rparr>
               # butlast (history s)
             \<and> (\<forall>i<9. history (fst (handleTranslate s (Responds True d) now date)) ! Suc i = history s ! i)))"
proof (intro conjI impI)
  show "length (history (ui (run as))) \<le> 10"
    unfolding run_def by (rule foldl_history_length) (simp add: initial_session_def initial_state_def)
next
  assume ne: "trim (sourceText s) \<noteq> []"
  then show h: "history (fst (handleTranslate s (Responds True d) now date)) =
          \<lparr>t_id = toString now, t_from = sourceLang s, t_to = targetLang s,
            t_original = sourceText s, t_translated = data_translation d, t_timestamp = date\<rparr>
          # take 9 (history s)"
    by (simp add: client_defs)
  show "length (history (fst (handleTranslate s (Responds True d) now date))) \<le> 10"
    unfolding h by simp
  assume full: "length (history s) = 10"
  then have b: "take 9 (history s) = butlast (history s)"
    by (simp add: butlast_conv_take)
  show "history (fst (handleTranslate s (Responds True d) now date)) =
               \<lparr>t_id = toString now, t_from = sourceLang s, t_to = targetLang s,
                 t_original = sourceText s, t_translated = data_translation d, t_timestamp = date\<rparr>
               # butlast (history s)"
    unfolding h b ..
  show "\<forall>i<9. history (fst (handleTranslate s (Responds True d) now date)) ! Suc i = history s ! i"
    unfolding h by simp
qed

theorem history_bounded_witness:
  "trim (sourceText full_state) \<noteq> []
   \<and> length (history full_state) = 10
   \<and> length (history (ui (run next_millisecond))) \<le> 10
   \<and> history (fst (handleTranslate full_state (translated ''Bom dia'') 11 12)) =
       \<lparr>t_id = toString 11, t_from = lit ''pt'', t_to = lit ''en'',
         t_original = lit ''Good morning'', t_translated = lit ''Bom dia'', t_timestamp = 12\<rparr>
       # map record_at [10, 9, 8, 7, 6, 5, 4, 3, 2]"
proof -
  have d: "data_translation \<lparr>data_error = None, data_translation = lit ''Bom dia''\<rparr> = lit ''Bom dia''"
    by simp
  have f: "sourceLang full_state = lit ''pt''" "targetLang full_state = lit ''en''"
      "sourceText full_state = lit ''Good morning''"
      "take 9 (history full_state) = map record_at [10, 9, 8, 7, 6, 5, 4, 3, 2]"
    by (simp_all add: full_state_def initial_state_def)
  show ?thesis
    using full_state_text full_state_history
      history_bounded [of next_millisecond full_state
        "\<lparr>data_error = None, data_translation = lit ''Bom dia''\<rparr>" 11 12]
    unfolding translated_def d f by simp
qed

text \<open>
  C4. \<open>swapLanguages\<close> applied twice gives the state back; applied once it exchanges
  \<open>sourceLang\<close> with \<open>targetLang\<close> and \<open>sourceText\<close> with \<open>translatedText\<close>, and it has
  no effect besides (no request).
\<close>

theorem swapLanguages_involution:
  "fst (swapLanguages (fst (swapLanguages s))) = s
   \<and> sourceLang (fst (swapLanguages s)) = targetLang s
   \<and> targetLang (fst (swapLanguages s)) = sourceLang s
   \<and> sourceText (fst (swapLanguages s)) = translatedText s
   \<and> translatedText (fst (swapLanguages s)) = sourceText s
   \<and> snd (swapLanguages s) = []"
  by (simp add: swapLanguages_def)

text \<open>
  C7. When \<open>sourceText\<close> trims to the empty string, \<open>handleTranslate\<close> returns the
  state as it was, with one effect only, the error toast of the validation message: no
  request is made. In the session nothing is put in flight.
\<close>

theorem empty_input_rejected:
  assumes "trim (sourceText s) = []"
  shows "handleTranslate s outcome now date = (s, [ToastError msg_empty_input])
       \<and> step Translate \<lparr>ui = s, pending = ps\<rparr> = \<lparr>ui = s, pending = ps\<rparr>"
  using assms by (simp add: handleTranslate_def handleTranslate_start_def)

theorem empty_input_rejected_witness:
  "trim (sourceText (initial_state\<lparr>sourceText := [0x20, 0x3000, 0x0A]\<rparr>)) = []
   \<and> handleTranslate (initial_state\<lparr>sourceText := [0x20, 0x3000, 0x0A]\<rparr>) (translated ''x'') 11 12 =
       (initial_state\<lparr>sourceText := [0x20, 0x3000, 0x0A]\<rparr>, [ToastError msg_empty_input])"
proof -
  have e: "trim (sourceText (initial_state\<lparr>sourceText := [0x20, 0x3000, 0x0A]\<rparr>)) = []"
    by (simp add: string_eval)
  show ?thesis
    using e empty_input_rejected [OF e, of "translated ''x''" 11 12] by simp
qed

text \<open>
  C10. When the request fails (the answer is not 2xx, or something throws before the
  first state update), the handler writes \<open>apiError\<close> and resets \<open>isTranslating\<close> and
  nothing else: both texts, both languages and the history are as before the call.
\<close>

theorem failed_translate_frame:
  assumes "outcome = Throws \<or> (\<exists>d. outcome = Responds False d)"
  shows "(\<exists>m. fst (handleTranslate_resume s outcome now date c) =
               c\<lparr>apiError := Some m, isTranslating := False\<rparr>)
       \<and> (trim (sourceText s) \<noteq> [] \<longrightarrow>
            (\<exists>m. fst (handleTranslate s outcome now date) =
               s\<lparr>apiError := Some m, isTranslating := False\<rparr>)
            \<and> sourceText (fst (handleTranslate s outcome now date)) = sourceText s
            \<and> translatedText (fst (handleTranslate s outcome now date)) = translatedText s
            \<and> sourceLang (fst (handleTranslate s outcome now date)) = sourceLang s
            \<and> targetLang (fst (handleTranslate s outcome now date)) = targetLang s
            \<and> history (fst (handleTranslate s outcome now date)) = history s)"
  using assms by (auto simp: client_defs Let_def)

theorem failed_translate_frame_witness:
  "fst (handleTranslate full_state (refused ''Limite de uso da API atingido. Tente novamente mais tarde.'') 11 12) =
     full_state\<lparr>apiError := Some (lit ''Limite de uso da API atingido. Tente novamente mais tarde.''),
                isTranslating := False\<rparr>
   \<and> history (fst (handleTranslate full_state Throws 11 12)) = history full_state
   \<and> sourceText (fst (handleTranslate full_state Throws 11 12)) = sourceText full_state
   \<and> apiError (fst (handleTranslate full_state Throws 11 12)) = Some msg_connection"
proof -
  let ?m = "''Limite de uso da API atingido. Tente novamente mais tarde.''"
  have r: "refused ?m = Responds False \<lparr>data_error = Some (lit ?m), data_translation = []\<rparr>"
    by (simp add: refused_def)
  have a: "apiError (fst (handleTranslate full_state (refused ?m) 11 12)) = Some (lit ?m)"
    using full_state_text by (simp add: client_defs refused_def falsy_def lit_def Let_def)
  have b: "apiError (fst (handleTranslate full_state Throws 11 12)) = Some msg_connection"
    using full_state_text by (simp add: client_defs)
  from failed_translate_frame [of "refused ?m" full_state 11 12 full_state] r full_state_text
  obtain m where m: "fst (handleTranslate full_state (refused ?m) 11 12) =
      full_state\<lparr>apiError := Some m, isTranslating := False\<rparr>"
    by blast
  with a have "m = lit ?m" by simp
  with m have 1: "fst (handleTranslate full_state (refused ?m) 11 12) =
      full_state\<lparr>apiError := Some (lit ?m), isTranslating := False\<rparr>"
    by simp
  from failed_translate_frame [of Throws full_state 11 12 full_state] full_state_text
  have 2: "history (fst (handleTranslate full_state Throws 11 12)) = history full_state"
      "sourceText (fst (handleTranslate full_state Throws 11 12)) = sourceText full_state"
    by simp_all
  from 1 2 b show ?thesis by (simp only: simp_thms)
qed


text \<open>
  C9. Every record of the history is to carry an \<open>id\<close> of its own; the \<open>id\<close> is the
  \<open>key\<close> of the rows of the history list. The handler takes \<open>Date.now().toString()\<close>
  for it, which repeats when two successful answers read the same millisecond: after the
  session below the history holds two records that differ and have the same \<open>id\<close>.
\<close>

theorem same_millisecond_ids_equal:
  "length (history (ui (run same_millisecond))) = 2
   \<and> history (ui (run same_millisecond)) ! 0 \<noteq> history (ui (run same_millisecond)) ! 1
   \<and> t_id (history (ui (run same_millisecond)) ! 0) = t_id (history (ui (run same_millisecond)) ! 1)
   \<and> t_id (history (ui (run same_millisecond)) ! 0) = lit ''1700000000000''"
proof -
  have h: "history (ui (run same_millisecond)) =
      [\<lparr>t_id = toString 1700000000000, t_from = lit ''pt'', t_to = lit ''en'',
         t_original = lit ''b'', t_translated = lit ''y'', t_timestamp = 1700000000000\<rparr>,
       \<lparr>t_id = toString 1700000000000, t_from = lit ''pt'', t_to = lit ''en'',
         t_original = lit ''a'', t_translated = lit ''x'', t_timestamp = 1700000000000\<rparr>]"
    by (simp add: run_def same_millisecond_def initial_session_def initial_state_def translated_def
        handleTranslate_start_def handleTranslate_resume_def string_eval)
  have t: "toString 1700000000000 = lit ''1700000000000''"
    by (simp add: toString_def digits.simps digit_def lit_def)
  show ?thesis unfolding h t by (simp add: lit_def)
qed

end
